theory Spec2Isabelle
  imports Complex_Main
begin

section \<open>Dual-tree kernel density estimation (fastlib/u/dongryel/kde/kde.h)\<close>

text \<open>
  A shallow embedding of the class \<open>FastKde\<close>.  Conventions of the model:

  \<^item> a \<open>double\<close> is a \<open>real\<close>: the model describes the arithmetic of the algorithm, not
    the rounding of the machine;
  \<^item> a value of type \<open>int\<close> or \<open>index_t\<close> is an integer.  Counts, indices and orders are
    taken as they are.  The results that the cost model of the series expansions stores
    in its \<open>int\<close> variables are reduced to 32 bits (\<open>int32\<close>, \<open>pow_to_int\<close>), since these
    are the values of kde.h that leave the range of an \<open>int\<close> on data sets of ordinary
    size;
  \<^item> a tree node is a value; a function that writes to \<open>qnode->stat()\<close> returns the new
    statistic of the node, and \<open>FKde\<close>, which writes into the whole subtree of
    \<open>qnode\<close>, returns the new subtree;
  \<^item> the member variables that \<open>Compute\<close> only reads (parameters, data sets) and the
    operations of the classes that are declared outside this file (kernel, bounds, series
    expansions) are the fields of one record that every function receives;
  \<^item> the member variables that the traversal writes (\<open>q_results\<close> and the four prune
    counters) form the record \<open>KdeState\<close>, passed in and returned;
  \<^item> names are those of the source, without the trailing underscore of a member name.
\<close>

subsection \<open>DRange\<close>

record DRange =
  lo :: real
  hi :: real

text \<open>Modelled from the spec: \<open>DRange\<close> (fastlib's closed interval of doubles) is
  declared outside the source file; the spec calls it a density interval (lo/hi). The
  operators used by kde.h are the usual ones of interval bookkeeping: \<open>Init\<close>,
  \<open>InitEmptySet\<close>, \<open>+=\<close> with a range and with a number, \<open>*=\<close> with a number,
  \<open>|=\<close> (the hull) and \<open>width\<close>.\<close>

definition DBL_MAX :: real where
  "DBL_MAX = 2 ^ 1024 - 2 ^ 971"

definition DRange_Init :: "real \<Rightarrow> real \<Rightarrow> DRange" where
  "DRange_Init l h = \<lparr> lo = l, hi = h \<rparr>"

definition InitEmptySet :: DRange where
  "InitEmptySet = \<lparr> lo = DBL_MAX, hi = - DBL_MAX \<rparr>"

definition DRange_plus :: "DRange \<Rightarrow> DRange \<Rightarrow> DRange" where
  "DRange_plus a b = \<lparr> lo = lo a + lo b, hi = hi a + hi b \<rparr>"

definition DRange_plus_d :: "DRange \<Rightarrow> real \<Rightarrow> DRange" where
  "DRange_plus_d a d = \<lparr> lo = lo a + d, hi = hi a + d \<rparr>"

definition DRange_times :: "DRange \<Rightarrow> real \<Rightarrow> DRange" where
  "DRange_times a d = \<lparr> lo = lo a * d, hi = hi a * d \<rparr>"

definition DRange_union :: "DRange \<Rightarrow> DRange \<Rightarrow> DRange" where
  "DRange_union a b = \<lparr> lo = min (lo a) (lo b), hi = max (hi a) (hi b) \<rparr>"

definition width :: "DRange \<Rightarrow> real" where
  "width a = hi a - lo a"

subsection \<open>Data sets\<close>

type_synonym Vector = "real list"

text \<open>A \<open>Matrix\<close> stores one point per column.\<close>

record Matrix =
  n_rows :: nat
  columns :: "Vector list"

definition GetColumnPtr :: "Matrix \<Rightarrow> int \<Rightarrow> Vector" where
  "GetColumnPtr m q = columns m ! nat q"

text \<open>Modelled from the spec: \<open>la::DistanceSqEuclidean\<close> is declared outside the source
  file; the spec calls its result the pairwise squared distance.\<close>

definition DistanceSqEuclidean :: "nat \<Rightarrow> Vector \<Rightarrow> Vector \<Rightarrow> real" where
  "DistanceSqEuclidean n a b = (\<Sum>k\<leftarrow>[0..<n]. (a ! k - b ! k)\<^sup>2)"

subsection \<open>The classes nested in FastKde\<close>

record Param =
  dimension :: int
  query_count :: int
  reference_count :: int
  relative_error :: real
  bandwidth :: real
  mul_constant :: real

text \<open>The fields of the four result classes carry a suffix, since several of the classes
  use the same member names: \<open>_qp\<close> for \<open>QPostponed\<close>, \<open>_d\<close> for \<open>Delta\<close>, \<open>_qr\<close>
  for \<open>QResult\<close> and \<open>_qs\<close> for \<open>QSummaryResult\<close>.\<close>

record QPostponed =
  d_density_range_qp :: DRange
  finite_diff_range_qp :: DRange
  used_error_qp :: real
  n_pruned_qp :: int

definition QP_Init :: QPostponed where
  "QP_Init = \<lparr> d_density_range_qp = DRange_Init 0 0, finite_diff_range_qp = DRange_Init 0 0,
               used_error_qp = 0, n_pruned_qp = 0 \<rparr>"

definition QP_Reset :: QPostponed where
  "QP_Reset = \<lparr> d_density_range_qp = DRange_Init 0 0, finite_diff_range_qp = DRange_Init 0 0,
                used_error_qp = 0, n_pruned_qp = 0 \<rparr>"

definition QP_ApplyPostponed :: "QPostponed \<Rightarrow> QPostponed \<Rightarrow> QPostponed" where
  "QP_ApplyPostponed this other =
     \<lparr> d_density_range_qp = DRange_plus (d_density_range_qp this) (d_density_range_qp other),
       finite_diff_range_qp = DRange_plus (finite_diff_range_qp this) (finite_diff_range_qp other),
       used_error_qp = used_error_qp this + used_error_qp other,
       n_pruned_qp = n_pruned_qp this + n_pruned_qp other \<rparr>"

record Delta =
  dsqd_range_d :: DRange
  d_density_range_d :: DRange

definition Delta_Init :: Delta where
  "Delta_Init = \<lparr> dsqd_range_d = DRange_Init 0 0, d_density_range_d = DRange_Init 0 0 \<rparr>"

record QResult =
  density_range_qr :: DRange
  density_estimate_qr :: real
  used_error_qr :: real
  n_pruned_qr :: int

definition QR_Init :: QResult where
  "QR_Init = \<lparr> density_range_qr = DRange_Init 0 0, density_estimate_qr = 0,
               used_error_qr = 0, n_pruned_qr = 0 \<rparr>"

definition QR_Postprocess :: "Param \<Rightarrow> QResult \<Rightarrow> QResult" where
  "QR_Postprocess param this =
     this \<lparr> density_range_qr := DRange_times (density_range_qr this) (mul_constant param),
            density_estimate_qr := density_estimate_qr this * mul_constant param \<rparr>"

definition QR_ApplyPostponed :: "QResult \<Rightarrow> QPostponed \<Rightarrow> QResult" where
  "QR_ApplyPostponed this postponed =
     \<lparr> density_range_qr = DRange_plus (density_range_qr this) (d_density_range_qp postponed),
       density_estimate_qr = density_estimate_qr this +
          0.5 * (lo (finite_diff_range_qp postponed) + hi (finite_diff_range_qp postponed)),
       used_error_qr = used_error_qr this + used_error_qp postponed,
       n_pruned_qr = n_pruned_qr this + n_pruned_qp postponed \<rparr>"

record QSummaryResult =
  density_range_qs :: DRange
  used_error_qs :: real
  n_pruned_qs :: int

definition QS_Init :: QSummaryResult where
  "QS_Init = \<lparr> density_range_qs = DRange_Init 0 0, used_error_qs = 0, n_pruned_qs = 0 \<rparr>"

definition QS_StartReaccumulate :: "Param \<Rightarrow> QSummaryResult" where
  "QS_StartReaccumulate param =
     \<lparr> density_range_qs = InitEmptySet, used_error_qs = 0,
       n_pruned_qs = reference_count param \<rparr>"

text \<open>\<open>Accumulate(param, const QResult&)\<close>: the refinement by one query point.\<close>

definition QS_Accumulate :: "QSummaryResult \<Rightarrow> QResult \<Rightarrow> QSummaryResult" where
  "QS_Accumulate this result =
     \<lparr> density_range_qs = DRange_union (density_range_qs this) (density_range_qr result),
       used_error_qs = max (used_error_qs this) (used_error_qr result),
       n_pruned_qs = min (n_pruned_qs this) (n_pruned_qr result) \<rparr>"

text \<open>\<open>Accumulate(param, const QSummaryResult&, n_points)\<close>: the vertical operator.\<close>

definition QS_Accumulate_child :: "QSummaryResult \<Rightarrow> QSummaryResult \<Rightarrow> int \<Rightarrow> QSummaryResult" where
  "QS_Accumulate_child this result n_points =
     \<lparr> density_range_qs = DRange_union (density_range_qs this) (density_range_qs result),
       used_error_qs = used_error_qs this + used_error_qs result,
       n_pruned_qs = min (n_pruned_qs this) (n_pruned_qs result) \<rparr>"

definition QS_ApplySummaryResult :: "QSummaryResult \<Rightarrow> QSummaryResult \<Rightarrow> QSummaryResult" where
  "QS_ApplySummaryResult this summary_result =
     \<lparr> density_range_qs = DRange_plus (density_range_qs this) (density_range_qs summary_result),
       used_error_qs = used_error_qs this + used_error_qs summary_result,
       n_pruned_qs = n_pruned_qs this + n_pruned_qs summary_result \<rparr>"

definition QS_ApplyDelta :: "QSummaryResult \<Rightarrow> Delta \<Rightarrow> QSummaryResult" where
  "QS_ApplyDelta this delta =
     this \<lparr> density_range_qs := DRange_plus (density_range_qs this) (d_density_range_d delta) \<rparr>"

definition QS_ApplyPostponed :: "QSummaryResult \<Rightarrow> QPostponed \<Rightarrow> QSummaryResult" where
  "QS_ApplyPostponed this postponed =
     \<lparr> density_range_qs = DRange_plus (density_range_qs this) (d_density_range_qp postponed),
       used_error_qs = used_error_qs this + used_error_qp postponed,
       n_pruned_qs = n_pruned_qs this + n_pruned_qp postponed \<rparr>"

record ('f, 'l) KdeStat =
  summary_result :: QSummaryResult
  postponed :: QPostponed
  farfield_expansion :: 'f
  local_expansion :: 'l

subsection \<open>The tree\<close>

text \<open>Modelled from the spec: \<open>BinarySpaceTree\<close> is declared outside the source file; the
  spec consumes it as a structure exposing children (null for leaves), a contiguous
  point-index range, a bounding region and the attached node state.  \<open>node_begin\<close> and
  \<open>node_count\<close> stand for \<open>begin()\<close> and \<open>count()\<close>.\<close>

datatype ('b, 's) Tree =
    Leaf (bound: 'b) (node_begin: int) (node_count: int) (stat: 's)
  | Node (bound: 'b) (node_begin: int) (node_count: int) (stat: 's)
         (left: "('b, 's) Tree") (right: "('b, 's) Tree")

definition node_end :: "('b, 's) Tree \<Rightarrow> int" where
  "node_end t = node_begin t + node_count t"

fun is_leaf :: "('b, 's) Tree \<Rightarrow> bool" where
  "is_leaf (Leaf b bg c s) = True"
| "is_leaf (Node b bg c s l r) = False"

fun set_stat :: "('b, 's) Tree \<Rightarrow> 's \<Rightarrow> ('b, 's) Tree" where
  "set_stat (Leaf b bg c s) s' = Leaf b bg c s'"
| "set_stat (Node b bg c s l r) s' = Node b bg c s' l r"

subsection \<open>Collaborators and member variables\<close>

text \<open>Modelled from the spec: the kernel and the series expansions are the template
  parameter \<open>TKernelAux\<close>, and the bound is fastlib's \<open>DHrectBound\<close>; none of them is
  under src/.  Their operations are taken as parameters, named as kde.h calls them (a
  suffix \<open>F\<close> or \<open>L\<close> tells the farfield from the local expansion where both classes use
  one name).  An operation that writes to an expansion returns the new expansion; an
  \<open>OrderFor...\<close> query returns the order together with the error it stores through its
  last argument.  \<open>InitF\<close> and \<open>InitL\<close> stand for \<open>Init(ka)\<close> followed by the
  \<open>CalculateMidpoint\<close> call that centres the fresh expansion on the bound.\<close>

record ('b, 'f, 'l) Collaborators =
  EvalUnnormOnSq :: "real \<Rightarrow> real"
  RangeUnnormOnSq :: "DRange \<Rightarrow> DRange"
  RangeDistanceSq :: "'b \<Rightarrow> 'b \<Rightarrow> DRange"
  MinToMidSq :: "'b \<Rightarrow> 'b \<Rightarrow> real"
  get_max_order :: int
  InitF :: "'b \<Rightarrow> 'f"
  InitL :: "'b \<Rightarrow> 'l"
  OrderForConvertingToLocal :: "'f \<Rightarrow> 'b \<Rightarrow> 'b \<Rightarrow> real \<Rightarrow> real \<Rightarrow> real \<Rightarrow> int \<times> real"
  OrderForEvaluatingF :: "'f \<Rightarrow> 'b \<Rightarrow> 'b \<Rightarrow> real \<Rightarrow> real \<Rightarrow> real \<Rightarrow> int \<times> real"
  OrderForEvaluatingL :: "'l \<Rightarrow> 'b \<Rightarrow> 'b \<Rightarrow> real \<Rightarrow> real \<Rightarrow> real \<Rightarrow> int \<times> real"
  TranslateToLocalF :: "'f \<Rightarrow> 'l \<Rightarrow> int \<Rightarrow> 'l"
  EvaluateFieldF :: "'f \<Rightarrow> Matrix \<Rightarrow> int \<Rightarrow> int \<Rightarrow> real"
  AccumulateCoeffs :: "'l \<Rightarrow> Matrix \<Rightarrow> Vector \<Rightarrow> int \<Rightarrow> int \<Rightarrow> int \<Rightarrow> 'l"
  TranslateFromFarField :: "'f \<Rightarrow> 'f \<Rightarrow> 'f"
  RefineCoeffs :: "'f \<Rightarrow> Matrix \<Rightarrow> Vector \<Rightarrow> int \<Rightarrow> int \<Rightarrow> int \<Rightarrow> 'f"
  TranslateToLocalL :: "'l \<Rightarrow> 'l \<Rightarrow> 'l"
  EvaluateFieldL :: "'l \<Rightarrow> Matrix \<Rightarrow> int \<Rightarrow> real"

record ('b, 'f, 'l) FastKde = "('b, 'f, 'l) Collaborators" +
  parameters :: Param
  qset :: Matrix
  rset :: Matrix
  rset_weights :: Vector

text \<open>The variables the traversal writes.  \<open>n_summed_aux\<close> is an auxiliary variable that
  the source does not have: entry \<open>q\<close> counts the iterations of the inner loop of
  \<open>FKdeBase\<close> for query point \<open>q\<close>.  No function reads it.\<close>

record KdeState =
  q_results :: "QResult list"
  num_farfield_to_local_prunes :: int
  num_farfield_prunes :: int
  num_local_prunes :: int
  num_finite_difference_prunes :: int
  n_summed_aux :: "int list"

type_synonym ('b, 'f, 'l) KdeTree = "('b, ('f, 'l) KdeStat) Tree"

subsection \<open>The base case\<close>

text \<open>The body of the inner loop of \<open>FKdeBase\<close>, for reference point \<open>r\<close>; the second
  component is the auxiliary counter.\<close>

definition FKdeBase_inner ::
  "('b, 'f, 'l) FastKde \<Rightarrow> Vector \<Rightarrow> int \<Rightarrow> QResult \<times> int \<Rightarrow> QResult \<times> int" where
  "FKdeBase_inner E q_col r acc =
     (let r_col = GetColumnPtr (rset E) r;
          dsqd = DistanceSqEuclidean (n_rows (qset E)) q_col r_col;
          ker_value = EvalUnnormOnSq E dsqd
      in ((fst acc) \<lparr> density_range_qr := DRange_plus_d (density_range_qr (fst acc)) ker_value,
                       density_estimate_qr := density_estimate_qr (fst acc) + ker_value \<rparr>,
          snd acc + 1))"

text \<open>The body of the outer loop of \<open>FKdeBase\<close>, for query point \<open>q\<close>.\<close>

definition FKdeBase_outer ::
  "('b, 'f, 'l) FastKde \<Rightarrow> ('b, 'f, 'l) KdeTree \<Rightarrow> ('b, 'f, 'l) KdeTree \<Rightarrow> int \<Rightarrow>
     QSummaryResult \<times> KdeState \<Rightarrow> QSummaryResult \<times> KdeState" where
  "FKdeBase_outer E qnode rnode q acc =
     (let st = snd acc;
          res0 = QR_ApplyPostponed (q_results st ! nat q) (postponed (stat qnode));
          q_col = GetColumnPtr (qset E) q;
          res1 = fold (FKdeBase_inner E q_col) [node_begin rnode..node_end rnode - 1]
                   (res0, n_summed_aux st ! nat q)
      in (QS_Accumulate (fst acc) (fst res1),
          st \<lparr> q_results := (q_results st)[nat q := fst res1],
               n_summed_aux := (n_summed_aux st)[nat q := snd res1] \<rparr>))"

definition FKdeBase ::
  "('b, 'f, 'l) FastKde \<Rightarrow> ('b, 'f, 'l) KdeTree \<Rightarrow> ('b, 'f, 'l) KdeTree \<Rightarrow> KdeState \<Rightarrow>
     ('f, 'l) KdeStat \<times> KdeState" where
  "FKdeBase E qnode rnode st =
     (let res = fold (FKdeBase_outer E qnode rnode) [node_begin qnode..node_end qnode - 1]
                  (QS_StartReaccumulate (parameters E), st)
      in ((stat qnode) \<lparr> summary_result := fst res, postponed := QP_Reset \<rparr>, snd res))"

subsection \<open>Pruning\<close>

text \<open>\<open>IntrinsicPrunable\<close> returns its result, the \<open>Delta\<close> it writes through its last
  argument, the new statistic of the query node and the new state.\<close>

definition IntrinsicPrunable ::
  "('b, 'f, 'l) FastKde \<Rightarrow> ('b, 'f, 'l) KdeTree \<Rightarrow> ('b, 'f, 'l) KdeTree \<Rightarrow> Delta \<Rightarrow> KdeState \<Rightarrow>
     bool \<times> Delta \<times> ('f, 'l) KdeStat \<times> KdeState" where
  "IntrinsicPrunable E qnode rnode parent_delta st =
     (let dsqd = RangeDistanceSq E (bound qnode) (bound rnode);
          dd = DRange_times (RangeUnnormOnSq E dsqd) (real_of_int (node_count rnode));
          delta = \<lparr> dsqd_range_d = dsqd, d_density_range_d = dd \<rparr>
      in if hi dd \<noteq> 0 then (False, delta, stat qnode, st)
         else (True, delta,
               (stat qnode) \<lparr> postponed := (postponed (stat qnode))
                   \<lparr> n_pruned_qp := n_pruned_qp (postponed (stat qnode)) + node_count rnode \<rparr> \<rparr>,
               st \<lparr> num_finite_difference_prunes := num_finite_difference_prunes st + 1 \<rparr>))"

definition INT_MAX :: int where
  "INT_MAX = 2147483647"

definition INT_MIN :: int where
  "INT_MIN = - 2147483648"

text \<open>The value that a 32-bit \<open>int\<close> holds when the exact result of a sum or a product is
  \<open>x\<close>: the representative of \<open>x\<close> modulo \<open>2^32\<close> between \<open>INT_MIN\<close> and \<open>INT_MAX\<close>.
  (Signed overflow is undefined in C++; this is the wrap-around of the machine
  multiplication, and also what the conversion of a wider \<open>index_t\<close> product to \<open>int\<close>
  gives.)\<close>

definition int32 :: "int \<Rightarrow> int" where
  "int32 x = (x + 2147483648) mod 4294967296 - 2147483648"

text \<open>\<open>(int) pow(b, e)\<close> for integers \<open>b\<close> and \<open>e\<close>.  For an exponent that is not negative
  the power is an integer, and the cast returns it when it lies in the range of \<open>int\<close>;
  the conversion of a double outside that range is undefined in C++ and gives \<open>INT_MIN\<close>
  on x86-64.  For a negative exponent \<open>pow\<close> returns \<open>1 / b^|e|\<close>: 1 or -1 when \<open>b\<close> is
  1 or -1, infinity (converted to \<open>INT_MIN\<close>) when \<open>b = 0\<close>, and otherwise a number
  strictly between -1 and 1, which the cast truncates to 0.\<close>

definition pow_to_int :: "int \<Rightarrow> int \<Rightarrow> int" where
  "pow_to_int b e =
     (if 0 \<le> e then
        (if INT_MIN \<le> b ^ nat e \<and> b ^ nat e \<le> INT_MAX then b ^ nat e else INT_MIN)
      else if b = 1 then 1
      else if b = - 1 then (if even e then 1 else - 1)
      else if b = 0 then INT_MIN
      else 0)"

text \<open>The three updates of \<open>qnode->stat().postponed_\<close> that every successful
  series-expansion prune performs, with the error of the chosen strategy.\<close>

definition series_postponed :: "QPostponed \<Rightarrow> Delta \<Rightarrow> int \<Rightarrow> real \<Rightarrow> QPostponed" where
  "series_postponed p delta rcount actual_err =
     p \<lparr> d_density_range_qp := DRange_plus (d_density_range_qp p) (d_density_range_d delta),
         used_error_qp := used_error_qp p + real_of_int rcount * actual_err,
         n_pruned_qp := n_pruned_qp p + rcount \<rparr>"

text \<open>The loop of the farfield strategy: the expansion of the reference node is evaluated
  at every query point of the query node.\<close>

definition EvaluateField_loop ::
  "('b, 'f, 'l) FastKde \<Rightarrow> 'f \<Rightarrow> int \<Rightarrow> int \<Rightarrow> QResult list \<Rightarrow> QResult list" where
  "EvaluateField_loop E ff order q rs =
     rs[nat q := (rs ! nat q) \<lparr> density_estimate_qr :=
          density_estimate_qr (rs ! nat q) + EvaluateFieldF E ff (qset E) q order \<rparr>]"

text \<open>The estimated costs computed by \<open>ExtrinsicPrunableSeriesExpansion\<close>: each starts at
  \<open>INT_MAX\<close> and is overwritten when the order of its strategy is not negative.  The
  cast binds tighter than the product: \<open>(int) pow(...) * count\<close> multiplies the converted
  power by the count.  The arguments \<open>order + 1\<close> and \<open>2 * dimension_\<close> are computed in
  integer arithmetic before \<open>pow\<close> converts them to \<open>double\<close>; \<open>index_t\<close> is taken to have
  the width of \<open>int\<close>.\<close>

definition cost_farfield_to_local :: "('b, 'f, 'l) FastKde \<Rightarrow> int \<Rightarrow> int" where
  "cost_farfield_to_local E order_farfield_to_local =
     (if order_farfield_to_local \<ge> 0
      then pow_to_int (int32 (order_farfield_to_local + 1))
             (int32 (2 * dimension (parameters E)))
      else INT_MAX)"

definition cost_farfield :: "('b, 'f, 'l) FastKde \<Rightarrow> ('b, 'f, 'l) KdeTree \<Rightarrow> int \<Rightarrow> int" where
  "cost_farfield E qnode order_farfield =
     (if order_farfield \<ge> 0
      then int32 (pow_to_int (int32 (order_farfield + 1)) (dimension (parameters E)) *
                  node_count qnode)
      else INT_MAX)"

definition cost_local :: "('b, 'f, 'l) FastKde \<Rightarrow> ('b, 'f, 'l) KdeTree \<Rightarrow> int \<Rightarrow> int" where
  "cost_local E rnode order_local =
     (if order_local \<ge> 0
      then int32 (pow_to_int (int32 (order_local + 1)) (dimension (parameters E)) *
                  node_count rnode)
      else INT_MAX)"

definition cost_exhaustive ::
  "('b, 'f, 'l) FastKde \<Rightarrow> ('b, 'f, 'l) KdeTree \<Rightarrow> ('b, 'f, 'l) KdeTree \<Rightarrow> int" where
  "cost_exhaustive E qnode rnode =
     int32 (int32 (node_count qnode * node_count rnode) * dimension (parameters E))"

text \<open>The error allowed per reference point, as \<open>ExtrinsicPrunableSeriesExpansion\<close>
  computes it.\<close>

definition allowed_err :: "('b, 'f, 'l) FastKde \<Rightarrow> QSummaryResult \<Rightarrow> real" where
  "allowed_err E q_summary_result =
     (relative_error (parameters E) * lo (density_range_qs q_summary_result) -
      used_error_qs q_summary_result) /
     real_of_int (reference_count (parameters E) - n_pruned_qs q_summary_result)"

text \<open>The second half of \<open>ExtrinsicPrunableSeriesExpansion\<close>, from the computation of
  the costs on.  Its arguments \<open>f2l\<close>, \<open>ff\<close> and \<open>loc\<close> are the answers of the three
  order queries: the order and the error each of them reports.\<close>

definition SeriesExpansion_apply ::
  "('b, 'f, 'l) FastKde \<Rightarrow> ('b, 'f, 'l) KdeTree \<Rightarrow> ('b, 'f, 'l) KdeTree \<Rightarrow> Delta \<Rightarrow>
     int \<times> real \<Rightarrow> int \<times> real \<Rightarrow> int \<times> real \<Rightarrow> KdeState \<Rightarrow> bool \<times> ('f, 'l) KdeStat \<times> KdeState" where
  "SeriesExpansion_apply E qnode rnode delta f2l ff loc st =
     (let order_farfield_to_local = fst f2l; actual_err_farfield_to_local = snd f2l;
          order_farfield = fst ff; actual_err_farfield = snd ff;
          order_local = fst loc; actual_err_local = snd loc;
          min_cost = min (cost_farfield_to_local E order_farfield_to_local)
                       (min (cost_farfield E qnode order_farfield)
                          (min (cost_local E rnode order_local) (cost_exhaustive E qnode rnode)))
      in if cost_farfield_to_local E order_farfield_to_local = min_cost then
           (True,
            (stat qnode) \<lparr>
               postponed := series_postponed (postponed (stat qnode)) delta (node_count rnode)
                              actual_err_farfield_to_local,
               local_expansion := TranslateToLocalF E (farfield_expansion (stat rnode))
                              (local_expansion (stat qnode)) order_farfield_to_local \<rparr>,
            st \<lparr> num_farfield_to_local_prunes := num_farfield_to_local_prunes st + 1 \<rparr>)
         else if cost_farfield E qnode order_farfield = min_cost then
           (True,
            (stat qnode) \<lparr>
               postponed := series_postponed (postponed (stat qnode)) delta (node_count rnode)
                              actual_err_farfield \<rparr>,
            st \<lparr> q_results := fold (EvaluateField_loop E (farfield_expansion (stat rnode)) order_farfield)
                                [node_begin qnode..node_end qnode - 1] (q_results st),
                 num_farfield_prunes := num_farfield_prunes st + 1 \<rparr>)
         else if cost_local E rnode order_local = min_cost then
           (True,
            (stat qnode) \<lparr>
               postponed := series_postponed (postponed (stat qnode)) delta (node_count rnode)
                              actual_err_local,
               local_expansion := AccumulateCoeffs E (local_expansion (stat qnode)) (rset E)
                              (rset_weights E) (node_begin rnode) (node_end rnode) order_local \<rparr>,
            st \<lparr> num_local_prunes := num_local_prunes st + 1 \<rparr>)
         else (False, stat qnode, st))"

definition ExtrinsicPrunableSeriesExpansion ::
  "('b, 'f, 'l) FastKde \<Rightarrow> ('b, 'f, 'l) KdeTree \<Rightarrow> ('b, 'f, 'l) KdeTree \<Rightarrow> Delta \<Rightarrow>
     QSummaryResult \<Rightarrow> KdeState \<Rightarrow> bool \<times> ('f, 'l) KdeStat \<times> KdeState" where
  "ExtrinsicPrunableSeriesExpansion E qnode rnode delta q_summary_result st =
     (let f2l = OrderForConvertingToLocal E (farfield_expansion (stat rnode))
                  (bound rnode) (bound qnode)
                  (lo (dsqd_range_d delta)) (hi (dsqd_range_d delta))
                  (allowed_err E q_summary_result);
          ff = OrderForEvaluatingF E (farfield_expansion (stat rnode))
                  (bound rnode) (bound qnode)
                  (lo (dsqd_range_d delta)) (hi (dsqd_range_d delta))
                  (allowed_err E q_summary_result);
          loc = OrderForEvaluatingL E (local_expansion (stat qnode))
                  (bound rnode) (bound qnode)
                  (lo (dsqd_range_d delta)) (hi (dsqd_range_d delta))
                  (allowed_err E q_summary_result)
      in SeriesExpansion_apply E qnode rnode delta f2l ff loc st)"

text \<open>The error allocated to the whole reference node, as \<open>ExtrinsicPrunable\<close> computes
  it.\<close>

definition allocated_error ::
  "('b, 'f, 'l) FastKde \<Rightarrow> ('b, 'f, 'l) KdeTree \<Rightarrow> QSummaryResult \<Rightarrow> real" where
  "allocated_error E rnode q_summary_result =
     (relative_error (parameters E) * lo (density_range_qs q_summary_result) -
      used_error_qs q_summary_result) * real_of_int (node_count rnode) /
     real_of_int (reference_count (parameters E) - n_pruned_qs q_summary_result)"

definition ExtrinsicPrunable ::
  "('b, 'f, 'l) FastKde \<Rightarrow> ('b, 'f, 'l) KdeTree \<Rightarrow> ('b, 'f, 'l) KdeTree \<Rightarrow> Delta \<Rightarrow>
     QSummaryResult \<Rightarrow> KdeState \<Rightarrow> bool \<times> ('f, 'l) KdeStat \<times> KdeState" where
  "ExtrinsicPrunable E qnode rnode delta q_summary_result st =
     (if width (d_density_range_d delta) / 2 \<le> allocated_error E rnode q_summary_result then
        (True,
         (stat qnode) \<lparr> postponed := (postponed (stat qnode))
            \<lparr> d_density_range_qp :=
                DRange_plus (d_density_range_qp (postponed (stat qnode))) (d_density_range_d delta),
              finite_diff_range_qp :=
                DRange_plus (finite_diff_range_qp (postponed (stat qnode))) (d_density_range_d delta),
              used_error_qp :=
                used_error_qp (postponed (stat qnode)) + width (d_density_range_d delta) / 2,
              n_pruned_qp := n_pruned_qp (postponed (stat qnode)) + node_count rnode \<rparr> \<rparr>,
         st \<lparr> num_finite_difference_prunes := num_finite_difference_prunes st + 1 \<rparr>)
      else ExtrinsicPrunableSeriesExpansion E qnode rnode delta q_summary_result st)"

definition Heuristic :: "('b, 'f, 'l) FastKde \<Rightarrow> ('b, 'f, 'l) KdeTree \<Rightarrow> ('b, 'f, 'l) KdeTree \<Rightarrow> real" where
  "Heuristic E qnode rnode = MinToMidSq E (bound rnode) (bound qnode)"

subsection \<open>The traversal\<close>

lemma size_set_stat [simp]: "size (set_stat t s) = size t"
  by (cases t) simp_all

lemma is_leaf_set_stat [simp]: "is_leaf (set_stat t s) = is_leaf t"
  by (cases t) simp_all

lemma set_stat_sel [simp]:
  "left (set_stat t s) = left t" "right (set_stat t s) = right t"
  "bound (set_stat t s) = bound t" "node_begin (set_stat t s) = node_begin t"
  "node_count (set_stat t s) = node_count t" "stat (set_stat t s) = s"
  by (cases t; simp add: left_def right_def)+

lemma size_left_less: "\<not> is_leaf t \<Longrightarrow> size (left t) < size t"
  by (cases t) simp_all

lemma size_right_less: "\<not> is_leaf t \<Longrightarrow> size (right t) < size t"
  by (cases t) simp_all

text \<open>The combined summary \<open>mu\<close> that \<open>FKde\<close> builds before its prune checks.\<close>

definition FKde_mu :: "('b, 'f, 'l) KdeTree \<Rightarrow> QSummaryResult \<Rightarrow> Delta \<Rightarrow> QSummaryResult" where
  "FKde_mu qnode unvisited delta =
     QS_ApplyDelta
       (QS_ApplySummaryResult
          (QS_ApplyPostponed (summary_result (stat qnode)) (postponed (stat qnode)))
          unvisited)
       delta"

text \<open>\<open>child->stat().postponed_.ApplyPostponed(parameters_, parent->stat().postponed_)\<close>,
  the statement by which \<open>FKde\<close> and \<open>PostProcess\<close> push the postponed information of a
  node down to a child.\<close>

definition push_postponed :: "('b, 'f, 'l) KdeTree \<Rightarrow> QPostponed \<Rightarrow> ('b, 'f, 'l) KdeTree" where
  "push_postponed child p =
     set_stat child ((stat child) \<lparr> postponed := QP_ApplyPostponed (postponed (stat child)) p \<rparr>)"

text \<open>The summary of a child with its postponed information applied (\<open>tmp_result\<close>).\<close>

definition tmp_result :: "('b, 'f, 'l) KdeTree \<Rightarrow> QSummaryResult" where
  "tmp_result child = QS_ApplyPostponed (summary_result (stat child)) (postponed (stat child))"

lemma size_push_postponed [simp]: "size (push_postponed t p) = size t"
  by (simp add: push_postponed_def)

text \<open>\<open>FKde\<close>.  Each call of a function that writes to the statistic of the query node is
  followed by \<open>set_stat\<close>, which stores the statistic it returns.  In the query-side
  split the summary of \<open>qnode\<close> is kept in local variables (\<open>summary0\<close>, \<open>summary1\<close>,
  \<open>summary2\<close>) from \<open>StartReaccumulate\<close> to \<open>FinishReaccumulate\<close> and stored with the
  reset of the postponed information; no call in between reads it.\<close>

function FKde ::
  "('b, 'f, 'l) FastKde \<Rightarrow> ('b, 'f, 'l) KdeTree \<Rightarrow> ('b, 'f, 'l) KdeTree \<Rightarrow> Delta \<Rightarrow>
     QSummaryResult \<Rightarrow> KdeState \<Rightarrow> ('b, 'f, 'l) KdeTree \<times> KdeState" where
  "FKde E qnode rnode delta unvisited st =
     (let mu = FKde_mu qnode unvisited delta;
          (prunable, s0, st0) = ExtrinsicPrunable E qnode rnode delta mu st;
          qnode0 = set_stat qnode s0
      in if prunable then (qnode0, st0)
         else if is_leaf qnode0 \<and> is_leaf rnode then
           (let (s1, st1) = FKdeBase E qnode0 rnode st0 in (set_stat qnode0 s1, st1))
         else if is_leaf rnode \<or> (node_count qnode0 \<ge> node_count rnode \<and> \<not> is_leaf qnode0) then
           (let summary0 = QS_StartReaccumulate (parameters E);
                left_child = push_postponed (left qnode0) (postponed (stat qnode0));
                (prunable_l, left_child_delta, sl, stl) =
                    IntrinsicPrunable E left_child rnode delta st0;
                (left_child1, st1) =
                    (if \<not> prunable_l
                     then FKde E (set_stat left_child sl) rnode left_child_delta unvisited stl
                     else (set_stat left_child sl, stl));
                summary1 = QS_Accumulate_child summary0 (tmp_result left_child1) (node_count qnode0);
                right_child = push_postponed (right qnode0) (postponed (stat qnode0));
                (prunable_r, right_child_delta, sr, str) =
                    IntrinsicPrunable E right_child rnode delta st1;
                (right_child1, st2) =
                    (if \<not> prunable_r
                     then FKde E (set_stat right_child sr) rnode right_child_delta unvisited str
                     else (set_stat right_child sr, str));
                summary2 = QS_Accumulate_child summary1 (tmp_result right_child1) (node_count qnode0)
            in (Node (bound qnode0) (node_begin qnode0) (node_count qnode0)
                  ((stat qnode0) \<lparr> summary_result := summary2, postponed := QP_Reset \<rparr>)
                  left_child1 right_child1,
                st2))
         else
           (let r_left_child = left rnode;
                r_right_child = right rnode;
                (intrinsic_prunable_r1, delta1, s1, st1) =
                    IntrinsicPrunable E qnode0 r_left_child delta st0;
                qnode1 = set_stat qnode0 s1;
                (intrinsic_prunable_r2, delta2, s2, st2) =
                    IntrinsicPrunable E qnode1 r_right_child delta st1;
                qnode2 = set_stat qnode1 s2
            in if intrinsic_prunable_r1 then
                 (if \<not> intrinsic_prunable_r2 then FKde E qnode2 r_right_child delta2 unvisited st2
                  else (qnode2, st2))
               else if intrinsic_prunable_r2 then FKde E qnode2 r_left_child delta1 unvisited st2
               else
                 (let heur1 = Heuristic E qnode2 r_left_child;
                      heur2 = Heuristic E qnode2 r_right_child
                  in if \<not> (heur1 > heur2) then
                       (let unvisited_for_r1 = QS_ApplyDelta unvisited delta2;
                            (qnode3, st3) = FKde E qnode2 r_left_child delta1 unvisited_for_r1 st2
                        in FKde E qnode3 r_right_child delta2 unvisited st3)
                     else
                       (let unvisited_for_r2 = QS_ApplyDelta unvisited delta1;
                            (qnode3, st3) = FKde E qnode2 r_right_child delta2 unvisited_for_r2 st2
                        in FKde E qnode3 r_left_child delta1 unvisited st3))))"
  by pat_completeness auto
termination
  by (relation "measures [\<lambda>(E, q, r, d, u, s). size r, \<lambda>(E, q, r, d, u, s). size q]")
     (auto simp: size_left_less size_right_less)

declare FKde.simps [simp del]

subsection \<open>Pre-processing and post-processing\<close>

text \<open>\<open>PreProcess\<close>.  The first two equations of each case are the statements that come
  before the test \<open>is_leaf()\<close>.\<close>

fun PreProcess :: "('b, 'f, 'l) FastKde \<Rightarrow> ('b, 'f, 'l) KdeTree \<Rightarrow> ('b, 'f, 'l) KdeTree" where
  "PreProcess E (Leaf b bg c s) =
     (let s1 = s \<lparr> farfield_expansion := InitF E b, local_expansion := InitL E b \<rparr>;
          s2 = s1 \<lparr> summary_result := QS_Init, postponed := QP_Init \<rparr>
      in Leaf b bg c
           (s2 \<lparr> farfield_expansion :=
                   RefineCoeffs E (farfield_expansion s2) (rset E) (rset_weights E) bg (bg + c)
                     (get_max_order E) \<rparr>))"
| "PreProcess E (Node b bg c s l r) =
     (let s1 = s \<lparr> farfield_expansion := InitF E b, local_expansion := InitL E b \<rparr>;
          s2 = s1 \<lparr> summary_result := QS_Init, postponed := QP_Init \<rparr>;
          l1 = PreProcess E l;
          r1 = PreProcess E r;
          s3 = s2 \<lparr> farfield_expansion :=
                   TranslateFromFarField E (farfield_expansion s2) (farfield_expansion (stat l1)) \<rparr>;
          s4 = s3 \<lparr> farfield_expansion :=
                   TranslateFromFarField E (farfield_expansion s3) (farfield_expansion (stat r1)) \<rparr>
      in Node b bg c s4 l1 r1)"

text \<open>The body of the loop of \<open>PostProcess\<close> over the points of a leaf.\<close>

definition PostProcess_point ::
  "('b, 'f, 'l) FastKde \<Rightarrow> ('f, 'l) KdeStat \<Rightarrow> int \<Rightarrow> QResult list \<Rightarrow> QResult list" where
  "PostProcess_point E s q rs =
     (let res0 = QR_ApplyPostponed (rs ! nat q) (postponed s);
          res1 = res0 \<lparr> density_estimate_qr :=
                   density_estimate_qr res0 + EvaluateFieldL E (local_expansion s) (qset E) q \<rparr>
      in rs[nat q := QR_Postprocess (parameters E) res1])"

fun PostProcess ::
  "('b, 'f, 'l) FastKde \<Rightarrow> ('b, 'f, 'l) KdeTree \<Rightarrow> KdeState \<Rightarrow> ('b, 'f, 'l) KdeTree \<times> KdeState" where
  "PostProcess E (Leaf b bg c s) st =
     (Leaf b bg c s,
      st \<lparr> q_results := fold (PostProcess_point E s) [bg..bg + c - 1] (q_results st) \<rparr>)"
| "PostProcess E (Node b bg c s l r) st =
     (let l1 = push_postponed l (postponed s);
          r1 = push_postponed r (postponed s);
          l2 = set_stat l1 ((stat l1) \<lparr> local_expansion :=
                 TranslateToLocalL E (local_expansion s) (local_expansion (stat l1)) \<rparr>);
          r2 = set_stat r1 ((stat r1) \<lparr> local_expansion :=
                 TranslateToLocalL E (local_expansion s) (local_expansion (stat r1)) \<rparr>);
          pl = PostProcess E l2 st;
          pr = PostProcess E r2 (snd pl)
      in (Node b bg c s (fst pl) (fst pr), snd pr))"

subsection \<open>Compute\<close>

text \<open>The reshuffle at the end of \<open>Compute\<close>: entry \<open>i\<close> of the results goes to position
  \<open>old_from_new_queries[i]\<close> of a temporary array, which is then copied back.  The
  entries of the temporary array are indeterminate in the source until they are assigned;
  the model starts them at \<open>QR_Init\<close>.\<close>

definition reshuffle :: "int list \<Rightarrow> QResult list \<Rightarrow> QResult list" where
  "reshuffle old_from_new_queries rs =
     fold (\<lambda>i tmp. tmp[nat (old_from_new_queries ! i) := rs ! i]) [0..<length rs]
       (replicate (length rs) QR_Init)"

text \<open>\<open>Compute\<close> receives the two roots and the permutation \<open>old_from_new_queries\<close> as
  \<open>Init\<close> left them.  The source tests \<open>qroot_ != rroot_\<close> on pointers; the model
  compares the trees, and on equal trees \<open>PreProcess\<close> returns equal trees.  When the two
  roots are one tree, the writes of the traversal go to the summary, the postponed
  information and the local expansion of a node, and the reads made of a reference node
  go to its bound, its range and its farfield expansion, so that the reference tree the
  traversal sees is the tree \<open>PreProcess\<close> returned.\<close>

definition Compute ::
  "('b, 'f, 'l) FastKde \<Rightarrow> ('b, 'f, 'l) KdeTree \<Rightarrow> ('b, 'f, 'l) KdeTree \<Rightarrow> int list \<Rightarrow> KdeState \<Rightarrow>
     ('b, 'f, 'l) KdeTree \<times> KdeState" where
  "Compute E qroot rroot old_from_new_queries st =
     (let st0 = st \<lparr> num_finite_difference_prunes := 0, num_farfield_to_local_prunes := 0,
                      num_farfield_prunes := 0, num_local_prunes := 0 \<rparr>;
          rroot1 = PreProcess E rroot;
          qroot1 = (if qroot \<noteq> rroot then PreProcess E qroot else rroot1);
          ip = IntrinsicPrunable E qroot1 rroot1 Delta_Init st0;
          delta = fst (snd ip);
          qroot2 = set_stat qroot1 (fst (snd (snd ip)));
          res = (if \<not> fst ip then FKde E qroot2 rroot1 delta QS_Init (snd (snd (snd ip)))
                 else (qroot2, snd (snd (snd ip))));
          pp = PostProcess E (fst res) (snd res)
      in (fst pp, (snd pp) \<lparr> q_results := reshuffle old_from_new_queries (q_results (snd pp)) \<rparr>))"

section \<open>The error budget in the words of the specification\<close>

text \<open>The allowed absolute error per reference point as the specification writes it:
  \<open>(relativeError * currentLowerDensityBound - errorAlreadySpent) /
  (referenceCount - referencePointsAlreadyAccountedFor)\<close>.  \<open>budget\<close> is this quantity
  for the summary \<open>mu\<close> that a pruning decision receives.\<close>

definition spec_allowed_err :: "real \<Rightarrow> real \<Rightarrow> real \<Rightarrow> int \<Rightarrow> int \<Rightarrow> real" where
  "spec_allowed_err relativeError currentLowerDensityBound errorAlreadySpent referenceCount
       referencePointsAlreadyAccountedFor =
     (relativeError * currentLowerDensityBound - errorAlreadySpent) /
     real_of_int (referenceCount - referencePointsAlreadyAccountedFor)"

definition budget :: "('b, 'f, 'l) FastKde \<Rightarrow> QSummaryResult \<Rightarrow> real" where
  "budget E mu =
     spec_allowed_err (relative_error (parameters E)) (lo (density_range_qs mu))
       (used_error_qs mu) (reference_count (parameters E)) (n_pruned_qs mu)"

section \<open>A one-dimensional instance\<close>

text \<open>Concrete collaborators for the closed theorems below: points on the real line,
  bounds that are intervals, the kernel \<open>max 0 (1 - d)\<close> of the squared distance \<open>d\<close>, a
  farfield expansion that is the list of the points it has absorbed, a local expansion
  without content, and order queries that answer with fixed values.\<close>

definition interval_RangeDistanceSq :: "DRange \<Rightarrow> DRange \<Rightarrow> DRange" where
  "interval_RangeDistanceSq a b =
     \<lparr> lo = (max 0 (max (lo b - hi a) (lo a - hi b)))\<^sup>2,
       hi = (max (hi a - lo b) (hi b - lo a))\<^sup>2 \<rparr>"

definition interval_MinToMidSq :: "DRange \<Rightarrow> DRange \<Rightarrow> real" where
  "interval_MinToMidSq r q =
     (let m = (lo q + hi q) / 2 in (max 0 (max (lo r - m) (m - hi r)))\<^sup>2)"

definition ex_kernel :: "real \<Rightarrow> real" where
  "ex_kernel d = max 0 (1 - d)"

definition ex_env ::
  "(int \<times> real) \<Rightarrow> (int \<times> real) \<Rightarrow> (int \<times> real) \<Rightarrow> Param \<Rightarrow> Vector list \<Rightarrow> Vector list \<Rightarrow>
     (DRange, Vector list, unit) FastKde" where
  "ex_env f2l ff loc param qs rs = \<lparr>
     EvalUnnormOnSq = ex_kernel,
     RangeUnnormOnSq = (\<lambda>r. \<lparr> lo = ex_kernel (hi r), hi = ex_kernel (lo r) \<rparr>),
     RangeDistanceSq = interval_RangeDistanceSq,
     MinToMidSq = interval_MinToMidSq,
     get_max_order = 0,
     InitF = (\<lambda>b. []),
     InitL = (\<lambda>b. ()),
     OrderForConvertingToLocal = (\<lambda>f rb qb l h e. f2l),
     OrderForEvaluatingF = (\<lambda>f rb qb l h e. ff),
     OrderForEvaluatingL = (\<lambda>f rb qb l h e. loc),
     TranslateToLocalF = (\<lambda>f l order. l),
     EvaluateFieldF = (\<lambda>f m q order. 0),
     AccumulateCoeffs = (\<lambda>l m w b e order. l),
     TranslateFromFarField = (\<lambda>f child. f @ child),
     RefineCoeffs = (\<lambda>f m w b e order. f @ map (GetColumnPtr m) [b..e - 1]),
     TranslateToLocalL = (\<lambda>l child. child),
     EvaluateFieldL = (\<lambda>l m q. 0),
     parameters = param,
     qset = \<lparr> n_rows = 1, columns = qs \<rparr>,
     rset = \<lparr> n_rows = 1, columns = rs \<rparr>,
     rset_weights = map (\<lambda>r. 1) rs \<rparr>"

definition ex_E :: "(DRange, Vector list, unit) FastKde" where
  "ex_E = ex_env (- 1, 0) (- 1, 0) (- 1, 0)
            \<lparr> dimension = 1, query_count = 2, reference_count = 3,
              relative_error = 1 / 10, bandwidth = 1, mul_constant = 1 / 2 \<rparr>
            [[0], [5]] [[0], [1], [5]]"

definition ex_stat :: "(Vector list, unit) KdeStat" where
  "ex_stat = \<lparr> summary_result = QS_Init, postponed = QP_Init,
               farfield_expansion = [], local_expansion = () \<rparr>"

definition ex_qroot :: "(DRange, Vector list, unit) KdeTree" where
  "ex_qroot = Node \<lparr> lo = 0, hi = 5 \<rparr> 0 2 ex_stat
                (Leaf \<lparr> lo = 0, hi = 0 \<rparr> 0 1 ex_stat)
                (Leaf \<lparr> lo = 5, hi = 5 \<rparr> 1 1 ex_stat)"

definition ex_rroot :: "(DRange, Vector list, unit) KdeTree" where
  "ex_rroot = Node \<lparr> lo = 0, hi = 5 \<rparr> 0 3 ex_stat
                (Leaf \<lparr> lo = 0, hi = 1 \<rparr> 0 2 ex_stat)
                (Leaf \<lparr> lo = 5, hi = 5 \<rparr> 2 1 ex_stat)"

definition ex_st :: KdeState where
  "ex_st = \<lparr> q_results = [QR_Init, QR_Init], num_farfield_to_local_prunes = 0,
             num_farfield_prunes = 0, num_local_prunes = 0,
             num_finite_difference_prunes = 0, n_summed_aux = [0, 0] \<rparr>"

section \<open>Pruning decisions\<close>

lemmas range_defs = DRange_Init_def InitEmptySet_def DRange_plus_def DRange_plus_d_def
  DRange_times_def DRange_union_def width_def DBL_MAX_def

lemmas result_defs = QP_Init_def QP_Reset_def QP_ApplyPostponed_def Delta_Init_def QR_Init_def
  QR_Postprocess_def QR_ApplyPostponed_def QS_Init_def QS_StartReaccumulate_def
  QS_Accumulate_def QS_Accumulate_child_def QS_ApplySummaryResult_def QS_ApplyDelta_def
  QS_ApplyPostponed_def

lemma ex_env_sel:
  "EvalUnnormOnSq (ex_env f2l ff loc param qs rs) = ex_kernel"
  "RangeUnnormOnSq (ex_env f2l ff loc param qs rs) =
     (\<lambda>r. \<lparr> lo = ex_kernel (hi r), hi = ex_kernel (lo r) \<rparr>)"
  "RangeDistanceSq (ex_env f2l ff loc param qs rs) = interval_RangeDistanceSq"
  "MinToMidSq (ex_env f2l ff loc param qs rs) = interval_MinToMidSq"
  "get_max_order (ex_env f2l ff loc param qs rs) = 0"
  "InitF (ex_env f2l ff loc param qs rs) = (\<lambda>b. [])"
  "InitL (ex_env f2l ff loc param qs rs) = (\<lambda>b. ())"
  "OrderForConvertingToLocal (ex_env f2l ff loc param qs rs) = (\<lambda>f rb qb l h e. f2l)"
  "OrderForEvaluatingF (ex_env f2l ff loc param qs rs) = (\<lambda>f rb qb l h e. ff)"
  "OrderForEvaluatingL (ex_env f2l ff loc param qs rs) = (\<lambda>f rb qb l h e. loc)"
  "TranslateToLocalF (ex_env f2l ff loc param qs rs) = (\<lambda>f l order. l)"
  "EvaluateFieldF (ex_env f2l ff loc param qs rs) = (\<lambda>f m q order. 0)"
  "AccumulateCoeffs (ex_env f2l ff loc param qs rs) = (\<lambda>l m w b e order. l)"
  "TranslateFromFarField (ex_env f2l ff loc param qs rs) = (\<lambda>f child. f @ child)"
  "RefineCoeffs (ex_env f2l ff loc param qs rs) =
     (\<lambda>f m w b e order. f @ map (GetColumnPtr m) [b..e - 1])"
  "TranslateToLocalL (ex_env f2l ff loc param qs rs) = (\<lambda>l child. child)"
  "EvaluateFieldL (ex_env f2l ff loc param qs rs) = (\<lambda>l m q. 0)"
  "parameters (ex_env f2l ff loc param qs rs) = param"
  "qset (ex_env f2l ff loc param qs rs) = \<lparr> n_rows = 1, columns = qs \<rparr>"
  "rset (ex_env f2l ff loc param qs rs) = \<lparr> n_rows = 1, columns = rs \<rparr>"
  "rset_weights (ex_env f2l ff loc param qs rs) = map (\<lambda>r. 1) rs"
  by (simp_all add: ex_env_def)

text \<open>When no series expansion is feasible and the exhaustive cost is below \<open>INT_MAX\<close>,
  nothing is applied.\<close>

lemma SeriesExpansion_apply_none:
  assumes "fst f2l < 0" "fst ff < 0" "fst loc < 0" "cost_exhaustive E qnode rnode < INT_MAX"
  shows "SeriesExpansion_apply E qnode rnode delta f2l ff loc st = (False, stat qnode, st)"
  using assms
  by (simp add: SeriesExpansion_apply_def Let_def cost_farfield_to_local_def
      cost_farfield_def cost_local_def)

lemmas traversal_defs = GetColumnPtr_def DistanceSqEuclidean_def node_end_def
  FKdeBase_inner_def FKdeBase_outer_def FKdeBase_def IntrinsicPrunable_def INT_MAX_def
  int32_def cost_exhaustive_def SeriesExpansion_apply_none allowed_err_def
  ExtrinsicPrunableSeriesExpansion_def allocated_error_def
  ExtrinsicPrunable_def Heuristic_def FKde_mu_def push_postponed_def tmp_result_def
  PostProcess_point_def Let_def upto.simps

lemmas ex_defs = interval_RangeDistanceSq_def interval_MinToMidSq_def ex_kernel_def
  ex_env_sel ex_E_def ex_stat_def ex_qroot_def ex_rroot_def ex_st_def


text \<open>C3.  The error allocated by \<open>ExtrinsicPrunable\<close> to the reference node is the budget
  of the specification times the point count of the reference node, and the finite
  difference test compares half the width of the delta with it; the error that
  \<open>ExtrinsicPrunableSeriesExpansion\<close> passes to the three order queries is the budget
  itself.\<close>

theorem error_budget:
  "allocated_error E rnode mu = budget E mu * real_of_int (node_count rnode) \<and>
   allowed_err E mu = budget E mu \<and>
   (if width (d_density_range_d delta) / 2 \<le> budget E mu * real_of_int (node_count rnode)
    then fst (ExtrinsicPrunable E qnode rnode delta mu st) \<and>
         num_finite_difference_prunes (snd (snd (ExtrinsicPrunable E qnode rnode delta mu st))) =
           num_finite_difference_prunes st + 1
    else ExtrinsicPrunable E qnode rnode delta mu st =
         ExtrinsicPrunableSeriesExpansion E qnode rnode delta mu st) \<and>
   ExtrinsicPrunableSeriesExpansion E qnode rnode delta mu st =
     SeriesExpansion_apply E qnode rnode delta
       (OrderForConvertingToLocal E (farfield_expansion (stat rnode)) (bound rnode) (bound qnode)
          (lo (dsqd_range_d delta)) (hi (dsqd_range_d delta)) (budget E mu))
       (OrderForEvaluatingF E (farfield_expansion (stat rnode)) (bound rnode) (bound qnode)
          (lo (dsqd_range_d delta)) (hi (dsqd_range_d delta)) (budget E mu))
       (OrderForEvaluatingL E (local_expansion (stat qnode)) (bound rnode) (bound qnode)
          (lo (dsqd_range_d delta)) (hi (dsqd_range_d delta)) (budget E mu))
       st"
proof -
  have a: "allocated_error E rnode mu = budget E mu * real_of_int (node_count rnode)"
    by (simp add: allocated_error_def budget_def spec_allowed_err_def)
  have b: "allowed_err E mu = budget E mu"
    by (simp add: allowed_err_def budget_def spec_allowed_err_def)
  show ?thesis
    by (simp add: a b ExtrinsicPrunable_def ExtrinsicPrunableSeriesExpansion_def Let_def)
qed


text \<open>C5.  \<open>IntrinsicPrunable\<close> writes the squared-distance range of the two bounds and the
  range of the kernel over it, times the point count of the reference node, into the
  delta; it returns true exactly when the upper end of that density range is zero, and
  then it has added the count of the reference node to the postponed \<open>n_pruned\<close> of the
  query node; otherwise statistic and state are as they were.\<close>

theorem IntrinsicPrunable_exclusion:
  "(let res = IntrinsicPrunable E qnode rnode parent_delta st;
        delta = fst (snd res)
    in dsqd_range_d delta = RangeDistanceSq E (bound qnode) (bound rnode) \<and>
       d_density_range_d delta =
         DRange_times (RangeUnnormOnSq E (dsqd_range_d delta)) (real_of_int (node_count rnode)) \<and>
       fst res = (hi (d_density_range_d delta) = 0) \<and>
       (if hi (d_density_range_d delta) = 0
        then n_pruned_qp (postponed (fst (snd (snd res)))) =
               n_pruned_qp (postponed (stat qnode)) + node_count rnode
        else fst (snd (snd res)) = stat qnode \<and> snd (snd (snd res)) = st))"
  by (simp add: IntrinsicPrunable_def Let_def)


text \<open>C10.  An exclusion prune changes no field of the postponed information but
  \<open>n_pruned\<close>, and leaves the summary, the expansions and the results of the query
  points as they were.\<close>

theorem IntrinsicPrunable_frame:
  assumes "fst (IntrinsicPrunable E qnode rnode parent_delta st)"
  shows "(let res = IntrinsicPrunable E qnode rnode parent_delta st;
              s' = fst (snd (snd res)); st' = snd (snd (snd res))
          in d_density_range_qp (postponed s') = d_density_range_qp (postponed (stat qnode)) \<and>
             finite_diff_range_qp (postponed s') = finite_diff_range_qp (postponed (stat qnode)) \<and>
             used_error_qp (postponed s') = used_error_qp (postponed (stat qnode)) \<and>
             n_pruned_qp (postponed s') = n_pruned_qp (postponed (stat qnode)) + node_count rnode \<and>
             summary_result s' = summary_result (stat qnode) \<and>
             farfield_expansion s' = farfield_expansion (stat qnode) \<and>
             local_expansion s' = local_expansion (stat qnode) \<and>
             q_results st' = q_results st)"
  using assms by (simp add: IntrinsicPrunable_def Let_def split: if_splits)


theorem IntrinsicPrunable_frame_witness:
  "fst (IntrinsicPrunable ex_E (right ex_qroot) (left ex_rroot) Delta_Init ex_st) \<and>
   d_density_range_qp (postponed (fst (snd (snd
       (IntrinsicPrunable ex_E (right ex_qroot) (left ex_rroot) Delta_Init ex_st))))) =
     \<lparr> lo = 0, hi = 0 \<rparr> \<and>
   n_pruned_qp (postponed (fst (snd (snd
       (IntrinsicPrunable ex_E (right ex_qroot) (left ex_rroot) Delta_Init ex_st))))) = 2 \<and>
   q_results (snd (snd (snd
       (IntrinsicPrunable ex_E (right ex_qroot) (left ex_rroot) Delta_Init ex_st)))) =
     q_results ex_st"
proof -
  have excluded: "fst (IntrinsicPrunable ex_E (right ex_qroot) (left ex_rroot) Delta_Init ex_st)"
    by (simp add: IntrinsicPrunable_def Let_def ex_defs range_defs)
  have before: "postponed (stat (right ex_qroot)) = QP_Init" "node_count (left ex_rroot) = 2"
    by (simp_all add: ex_defs)
  from IntrinsicPrunable_frame [OF excluded] excluded show ?thesis
    by (simp add: Let_def before QP_Init_def DRange_Init_def)
qed

text \<open>C4.  When half the width of the delta is within the budget times the point count of
  the reference node, \<open>ExtrinsicPrunable\<close> adds the delta to the postponed density range
  and to the finite-difference range, adds half its width to the postponed used error and
  the count of the reference node to the postponed \<open>n_pruned\<close>, and returns true; it
  changes nothing else but the counter of finite-difference prunes (no result of a query
  point, no expansion, no counter of a series-expansion prune).  \<open>QResult::ApplyPostponed\<close>
  later adds the midpoint of the finite-difference range to the estimate.\<close>

theorem ExtrinsicPrunable_finite_difference:
  assumes "width (d_density_range_d delta) / 2 \<le> budget E mu * real_of_int (node_count rnode)"
  shows "ExtrinsicPrunable E qnode rnode delta mu st =
           (True,
            (stat qnode) \<lparr> postponed :=
               \<lparr> d_density_range_qp =
                   DRange_plus (d_density_range_qp (postponed (stat qnode))) (d_density_range_d delta),
                 finite_diff_range_qp =
                   DRange_plus (finite_diff_range_qp (postponed (stat qnode))) (d_density_range_d delta),
                 used_error_qp =
                   used_error_qp (postponed (stat qnode)) + width (d_density_range_d delta) / 2,
                 n_pruned_qp = n_pruned_qp (postponed (stat qnode)) + node_count rnode \<rparr> \<rparr>,
            st \<lparr> num_finite_difference_prunes := num_finite_difference_prunes st + 1 \<rparr>) \<and>
         density_estimate_qr (QR_ApplyPostponed res p) =
           density_estimate_qr res + (lo (finite_diff_range_qp p) + hi (finite_diff_range_qp p)) / 2"
proof -
  have "allocated_error E rnode mu = budget E mu * real_of_int (node_count rnode)"
    by (simp add: allocated_error_def budget_def spec_allowed_err_def)
  with assms show ?thesis
    by (simp add: ExtrinsicPrunable_def QR_ApplyPostponed_def)
qed


theorem ExtrinsicPrunable_finite_difference_witness:
  "width (d_density_range_d \<lparr> dsqd_range_d = \<lparr> lo = 0, hi = 0 \<rparr>,
                             d_density_range_d = \<lparr> lo = 1, hi = 1 \<rparr> \<rparr>) / 2
     \<le> budget ex_E \<lparr> density_range_qs = \<lparr> lo = 1, hi = 1 \<rparr>, used_error_qs = 0, n_pruned_qs = 2 \<rparr>
         * real_of_int (node_count (right ex_rroot)) \<and>
   ExtrinsicPrunable ex_E (right ex_qroot) (right ex_rroot)
       \<lparr> dsqd_range_d = \<lparr> lo = 0, hi = 0 \<rparr>, d_density_range_d = \<lparr> lo = 1, hi = 1 \<rparr> \<rparr>
       \<lparr> density_range_qs = \<lparr> lo = 1, hi = 1 \<rparr>, used_error_qs = 0, n_pruned_qs = 2 \<rparr> ex_st =
     (True,
      ex_stat \<lparr> postponed :=
         \<lparr> d_density_range_qp = \<lparr> lo = 1, hi = 1 \<rparr>, finite_diff_range_qp = \<lparr> lo = 1, hi = 1 \<rparr>,
           used_error_qp = 0, n_pruned_qp = 1 \<rparr> \<rparr>,
      ex_st \<lparr> num_finite_difference_prunes := 1 \<rparr>)"
proof -
  have within: "width (d_density_range_d \<lparr> dsqd_range_d = \<lparr> lo = 0, hi = 0 \<rparr>,
                             d_density_range_d = \<lparr> lo = 1, hi = 1 \<rparr> \<rparr>) / 2
     \<le> budget ex_E \<lparr> density_range_qs = \<lparr> lo = 1, hi = 1 \<rparr>, used_error_qs = 0, n_pruned_qs = 2 \<rparr>
         * real_of_int (node_count (right ex_rroot))"
    by (simp add: budget_def spec_allowed_err_def width_def ex_defs)
  from ExtrinsicPrunable_finite_difference [OF within, of "right ex_qroot" ex_st] within
  show ?thesis
    by (simp add: ex_qroot_def ex_rroot_def ex_stat_def ex_st_def QP_Init_def DRange_Init_def
        DRange_plus_def width_def)
qed

section \<open>The split side and the order of the visits\<close>

text \<open>The two branches by which \<open>FKde\<close> descends, as functions of their own: the
  query-side split and the reference-side split.\<close>

definition FKde_split_query ::
  "('b, 'f, 'l) FastKde \<Rightarrow> ('b, 'f, 'l) KdeTree \<Rightarrow> ('b, 'f, 'l) KdeTree \<Rightarrow> Delta \<Rightarrow>
     QSummaryResult \<Rightarrow> KdeState \<Rightarrow> ('b, 'f, 'l) KdeTree \<times> KdeState" where
  "FKde_split_query E qnode rnode delta unvisited st =
     (let summary0 = QS_StartReaccumulate (parameters E);
          left_child = push_postponed (left qnode) (postponed (stat qnode));
          (prunable_l, left_child_delta, sl, stl) =
              IntrinsicPrunable E left_child rnode delta st;
          (left_child1, st1) =
              (if \<not> prunable_l
               then FKde E (set_stat left_child sl) rnode left_child_delta unvisited stl
               else (set_stat left_child sl, stl));
          summary1 = QS_Accumulate_child summary0 (tmp_result left_child1) (node_count qnode);
          right_child = push_postponed (right qnode) (postponed (stat qnode));
          (prunable_r, right_child_delta, sr, str) =
              IntrinsicPrunable E right_child rnode delta st1;
          (right_child1, st2) =
              (if \<not> prunable_r
               then FKde E (set_stat right_child sr) rnode right_child_delta unvisited str
               else (set_stat right_child sr, str));
          summary2 = QS_Accumulate_child summary1 (tmp_result right_child1) (node_count qnode)
      in (Node (bound qnode) (node_begin qnode) (node_count qnode)
            ((stat qnode) \<lparr> summary_result := summary2, postponed := QP_Reset \<rparr>)
            left_child1 right_child1,
          st2))"

definition FKde_split_reference ::
  "('b, 'f, 'l) FastKde \<Rightarrow> ('b, 'f, 'l) KdeTree \<Rightarrow> ('b, 'f, 'l) KdeTree \<Rightarrow> Delta \<Rightarrow>
     QSummaryResult \<Rightarrow> KdeState \<Rightarrow> ('b, 'f, 'l) KdeTree \<times> KdeState" where
  "FKde_split_reference E qnode rnode delta unvisited st =
     (let r_left_child = left rnode;
          r_right_child = right rnode;
          (intrinsic_prunable_r1, delta1, s1, st1) =
              IntrinsicPrunable E qnode r_left_child delta st;
          qnode1 = set_stat qnode s1;
          (intrinsic_prunable_r2, delta2, s2, st2) =
              IntrinsicPrunable E qnode1 r_right_child delta st1;
          qnode2 = set_stat qnode1 s2
      in if intrinsic_prunable_r1 then
           (if \<not> intrinsic_prunable_r2 then FKde E qnode2 r_right_child delta2 unvisited st2
            else (qnode2, st2))
         else if intrinsic_prunable_r2 then FKde E qnode2 r_left_child delta1 unvisited st2
         else
           (let heur1 = Heuristic E qnode2 r_left_child;
                heur2 = Heuristic E qnode2 r_right_child
            in if \<not> (heur1 > heur2) then
                 (let unvisited_for_r1 = QS_ApplyDelta unvisited delta2;
                      (qnode3, st3) = FKde E qnode2 r_left_child delta1 unvisited_for_r1 st2
                  in FKde E qnode3 r_right_child delta2 unvisited st3)
               else
                 (let unvisited_for_r2 = QS_ApplyDelta unvisited delta1;
                      (qnode3, st3) = FKde E qnode2 r_right_child delta2 unvisited_for_r2 st2
                  in FKde E qnode3 r_left_child delta1 unvisited st3)))"

lemma set_stat_stat [simp]: "set_stat t (stat t) = t"
  by (cases t) simp_all

lemma SeriesExpansion_apply_False:
  "\<not> fst (SeriesExpansion_apply E qnode rnode delta f2l ff loc st) \<Longrightarrow>
   SeriesExpansion_apply E qnode rnode delta f2l ff loc st = (False, stat qnode, st)"
  by (auto simp: SeriesExpansion_apply_def Let_def split: if_splits)

lemma ExtrinsicPrunable_False:
  "\<not> fst (ExtrinsicPrunable E qnode rnode delta mu st) \<Longrightarrow>
   ExtrinsicPrunable E qnode rnode delta mu st = (False, stat qnode, st)"
  by (simp add: ExtrinsicPrunable_def ExtrinsicPrunableSeriesExpansion_def
      SeriesExpansion_apply_False split: if_splits)

lemma IntrinsicPrunable_False:
  "\<not> fst (IntrinsicPrunable E qnode rnode parent_delta st) \<Longrightarrow>
   IntrinsicPrunable E qnode rnode parent_delta st =
     (False, fst (snd (IntrinsicPrunable E qnode rnode parent_delta st)), stat qnode, st)"
  by (simp add: IntrinsicPrunable_def Let_def split: if_splits)

text \<open>C6.  When pruning fails and the pair is not a pair of leaves, \<open>FKde\<close> splits the
  query side exactly when the reference node is a leaf, or the query node has at least as
  many points as the reference node and is not a leaf; in every other case it splits the
  reference side.\<close>

theorem FKde_split_side:
  assumes "\<not> fst (ExtrinsicPrunable E qnode rnode delta (FKde_mu qnode unvisited delta) st)"
    and "\<not> (is_leaf qnode \<and> is_leaf rnode)"
  shows "FKde E qnode rnode delta unvisited st =
           (if is_leaf rnode \<or> (node_count qnode \<ge> node_count rnode \<and> \<not> is_leaf qnode)
            then FKde_split_query E qnode rnode delta unvisited st
            else FKde_split_reference E qnode rnode delta unvisited st)"
  using assms
  by (subst FKde.simps)
     (simp add: ExtrinsicPrunable_False [OF assms(1)] FKde_split_query_def
        FKde_split_reference_def)

definition ex_delta :: Delta where
  "ex_delta = \<lparr> dsqd_range_d = \<lparr> lo = 0, hi = 25 \<rparr>, d_density_range_d = \<lparr> lo = 0, hi = 3 \<rparr> \<rparr>"

definition ex_delta_left :: Delta where
  "ex_delta_left = \<lparr> dsqd_range_d = \<lparr> lo = 0, hi = 25 \<rparr>, d_density_range_d = \<lparr> lo = 0, hi = 2 \<rparr> \<rparr>"

theorem FKde_split_side_witness:
  "\<not> fst (ExtrinsicPrunable ex_E ex_qroot ex_rroot ex_delta (FKde_mu ex_qroot QS_Init ex_delta) ex_st) \<and>
   \<not> (is_leaf ex_qroot \<and> is_leaf ex_rroot) \<and>
   \<not> (is_leaf ex_rroot \<or> (node_count ex_qroot \<ge> node_count ex_rroot \<and> \<not> is_leaf ex_qroot)) \<and>
   FKde ex_E ex_qroot ex_rroot ex_delta QS_Init ex_st =
     FKde_split_reference ex_E ex_qroot ex_rroot ex_delta QS_Init ex_st \<and>
   \<not> fst (ExtrinsicPrunable ex_E ex_qroot (left ex_rroot) ex_delta_left
            (FKde_mu ex_qroot QS_Init ex_delta_left) ex_st) \<and>
   is_leaf (left ex_rroot) \<and>
   FKde ex_E ex_qroot (left ex_rroot) ex_delta_left QS_Init ex_st =
     FKde_split_query ex_E ex_qroot (left ex_rroot) ex_delta_left QS_Init ex_st"
proof -
  have a: "\<not> fst (ExtrinsicPrunable ex_E ex_qroot ex_rroot ex_delta
                    (FKde_mu ex_qroot QS_Init ex_delta) ex_st)"
    by (simp add: ex_delta_def ex_defs traversal_defs result_defs range_defs)
  have b: "\<not> (is_leaf ex_qroot \<and> is_leaf ex_rroot)"
    by (simp add: ex_defs)
  have c: "\<not> fst (ExtrinsicPrunable ex_E ex_qroot (left ex_rroot) ex_delta_left
            (FKde_mu ex_qroot QS_Init ex_delta_left) ex_st)"
    by (simp add: ex_delta_left_def ex_defs traversal_defs result_defs range_defs)
  have d: "\<not> (is_leaf ex_qroot \<and> is_leaf (left ex_rroot))"
    by (simp add: ex_defs)
  have e: "\<not> (is_leaf ex_rroot \<or> (node_count ex_qroot \<ge> node_count ex_rroot \<and> \<not> is_leaf ex_qroot))"
    "is_leaf (left ex_rroot)"
    by (simp_all add: ex_defs)
  from FKde_split_side [OF a b] FKde_split_side [OF c d] a b c e show ?thesis
    by simp
qed

text \<open>C7, as amended.  On a reference-side split where neither reference child is
  excluded, the child whose bound is nearer to the midpoint of the query bound (the left
  one on a tie) is visited first, and it is this first call that receives the unvisited
  summary of the caller with the delta of the other child added; the call for the farther
  child comes second and receives the unvisited summary of the caller as it is.\<close>

theorem FKde_visit_order:
  assumes "\<not> fst (ExtrinsicPrunable E qnode rnode delta (FKde_mu qnode unvisited delta) st)"
    and "\<not> is_leaf rnode"
    and "is_leaf qnode \<or> node_count qnode < node_count rnode"
    and "\<not> fst (IntrinsicPrunable E qnode (left rnode) delta st)"
    and "\<not> fst (IntrinsicPrunable E qnode (right rnode) delta st)"
  shows "FKde E qnode rnode delta unvisited st =
           (let delta1 = fst (snd (IntrinsicPrunable E qnode (left rnode) delta st));
                delta2 = fst (snd (IntrinsicPrunable E qnode (right rnode) delta st))
            in if MinToMidSq E (bound (left rnode)) (bound qnode)
                    \<le> MinToMidSq E (bound (right rnode)) (bound qnode)
               then (let (qnode3, st3) =
                           FKde E qnode (left rnode) delta1 (QS_ApplyDelta unvisited delta2) st
                     in FKde E qnode3 (right rnode) delta2 unvisited st3)
               else (let (qnode3, st3) =
                           FKde E qnode (right rnode) delta2 (QS_ApplyDelta unvisited delta1) st
                     in FKde E qnode3 (left rnode) delta1 unvisited st3))"
proof -
  have l: "IntrinsicPrunable E qnode (left rnode) delta st =
      (False, fst (snd (IntrinsicPrunable E qnode (left rnode) delta st)), stat qnode, st)"
    by (rule IntrinsicPrunable_False [OF assms(4)])
  have r: "IntrinsicPrunable E qnode (right rnode) delta st =
      (False, fst (snd (IntrinsicPrunable E qnode (right rnode) delta st)), stat qnode, st)"
    by (rule IntrinsicPrunable_False [OF assms(5)])
  obtain d1 where d1: "IntrinsicPrunable E qnode (left rnode) delta st = (False, d1, stat qnode, st)"
    using l by blast
  obtain d2 where d2: "IntrinsicPrunable E qnode (right rnode) delta st = (False, d2, stat qnode, st)"
    using r by blast
  show ?thesis
    using assms(2,3)
    by (subst FKde.simps)
       (auto simp: ExtrinsicPrunable_False [OF assms(1)] d1 d2 Heuristic_def Let_def not_less)
qed

text \<open>The reference-side split as claim C7 words it: the nearer child first with the
  unvisited summary of the caller, the farther child second with the delta of the nearer
  child added to it.\<close>

definition reference_split_as_claimed ::
  "('b, 'f, 'l) FastKde \<Rightarrow> ('b, 'f, 'l) KdeTree \<Rightarrow> ('b, 'f, 'l) KdeTree \<Rightarrow> Delta \<Rightarrow>
     QSummaryResult \<Rightarrow> KdeState \<Rightarrow> ('b, 'f, 'l) KdeTree \<times> KdeState" where
  "reference_split_as_claimed E qnode rnode delta unvisited st =
     (let delta1 = fst (snd (IntrinsicPrunable E qnode (left rnode) delta st));
          delta2 = fst (snd (IntrinsicPrunable E qnode (right rnode) delta st))
      in if MinToMidSq E (bound (left rnode)) (bound qnode)
              \<le> MinToMidSq E (bound (right rnode)) (bound qnode)
         then (let (qnode3, st3) = FKde E qnode (left rnode) delta1 unvisited st
               in FKde E qnode3 (right rnode) delta2 (QS_ApplyDelta unvisited delta1) st3)
         else (let (qnode3, st3) = FKde E qnode (right rnode) delta2 unvisited st
               in FKde E qnode3 (left rnode) delta1 (QS_ApplyDelta unvisited delta2) st3))"

text \<open>An input on which the two orders differ: one query point at 0, reference points 0
  and 1/2 in the left child and 3/5 in the right child, relative error 1/5.  With the
  delta of the right child added to its unvisited summary the call for the left child
  prunes by finite difference; without it, it goes to the base case.\<close>

definition cex_E :: "(DRange, Vector list, unit) FastKde" where
  "cex_E = ex_env (- 1, 0) (- 1, 0) (- 1, 0)
            \<lparr> dimension = 1, query_count = 1, reference_count = 3,
              relative_error = 1 / 5, bandwidth = 1, mul_constant = 1 / 3 \<rparr>
            [[0]] [[0], [1 / 2], [3 / 5]]"

definition cex_q :: "(DRange, Vector list, unit) KdeTree" where
  "cex_q = Leaf \<lparr> lo = 0, hi = 0 \<rparr> 0 1 ex_stat"

definition cex_r :: "(DRange, Vector list, unit) KdeTree" where
  "cex_r = Node \<lparr> lo = 0, hi = 3 / 5 \<rparr> 0 3 ex_stat
             (Leaf \<lparr> lo = 0, hi = 1 / 2 \<rparr> 0 2 ex_stat)
             (Leaf \<lparr> lo = 3 / 5, hi = 3 / 5 \<rparr> 2 1 ex_stat)"

definition cex_st :: KdeState where
  "cex_st = \<lparr> q_results = [QR_Init], num_farfield_to_local_prunes = 0,
              num_farfield_prunes = 0, num_local_prunes = 0,
              num_finite_difference_prunes = 0, n_summed_aux = [0] \<rparr>"

definition cex_delta :: Delta where
  "cex_delta = \<lparr> dsqd_range_d = \<lparr> lo = 0, hi = 9 / 25 \<rparr>,
                 d_density_range_d = \<lparr> lo = 48 / 25, hi = 3 \<rparr> \<rparr>"

lemmas cex_defs = cex_E_def cex_q_def cex_r_def cex_st_def cex_delta_def

lemmas FKde_unfold =
  FKde.simps [of _ "Leaf b bg c s" "Leaf b' bg' c' s'" for b bg c s b' bg' c' s']
  FKde.simps [of _ "Leaf b bg c s" "Node b' bg' c' s' l' r'" for b bg c s b' bg' c' s' l' r']
  FKde.simps [of _ "Node b bg c s l r" "Leaf b' bg' c' s'" for b bg c s l r b' bg' c' s']
  FKde.simps [of _ "Node b bg c s l r" "Node b' bg' c' s' l' r'" for b bg c s l r b' bg' c' s' l' r']

lemma cex_delta: "IntrinsicPrunable cex_E cex_q cex_r Delta_Init cex_st = (False, cex_delta, stat cex_q, cex_st)"
  by (simp add: cex_defs ex_defs IntrinsicPrunable_def Let_def range_defs power2_eq_square)

lemma cex_actual:
  "n_summed_aux (snd (FKde cex_E cex_q cex_r cex_delta QS_Init cex_st)) = [0]"
  by (simp add: cex_defs ex_defs traversal_defs result_defs range_defs FKde_unfold
      power2_eq_square)

lemma cex_claimed:
  "n_summed_aux (snd (reference_split_as_claimed cex_E cex_q cex_r cex_delta QS_Init cex_st)) = [2]"
  by (simp add: reference_split_as_claimed_def cex_defs ex_defs traversal_defs result_defs
      range_defs FKde_unfold power2_eq_square)

text \<open>C7, as stated, fails: on this input \<open>FKde\<close> does not return what the order of the
  claim returns.\<close>

theorem FKde_visit_order_counterexample:
  "FKde cex_E cex_q cex_r cex_delta QS_Init cex_st \<noteq>
     reference_split_as_claimed cex_E cex_q cex_r cex_delta QS_Init cex_st"
proof
  assume "FKde cex_E cex_q cex_r cex_delta QS_Init cex_st =
     reference_split_as_claimed cex_E cex_q cex_r cex_delta QS_Init cex_st"
  then have "n_summed_aux (snd (FKde cex_E cex_q cex_r cex_delta QS_Init cex_st)) =
     n_summed_aux (snd (reference_split_as_claimed cex_E cex_q cex_r cex_delta QS_Init cex_st))"
    by simp
  then show False
    by (simp add: cex_actual cex_claimed)
qed

lemma cex_hyps:
  "\<not> fst (ExtrinsicPrunable cex_E cex_q cex_r cex_delta (FKde_mu cex_q QS_Init cex_delta) cex_st)"
  "\<not> is_leaf cex_r"
  "is_leaf cex_q \<or> node_count cex_q < node_count cex_r"
  "\<not> fst (IntrinsicPrunable cex_E cex_q (left cex_r) cex_delta cex_st)"
  "\<not> fst (IntrinsicPrunable cex_E cex_q (right cex_r) cex_delta cex_st)"
  by (simp_all add: cex_defs ex_defs traversal_defs result_defs range_defs power2_eq_square)

lemma cex_deltas:
  "fst (snd (IntrinsicPrunable cex_E cex_q (left cex_r) cex_delta cex_st)) =
     \<lparr> dsqd_range_d = \<lparr> lo = 0, hi = 1 / 4 \<rparr>, d_density_range_d = \<lparr> lo = 3 / 2, hi = 2 \<rparr> \<rparr>"
  "fst (snd (IntrinsicPrunable cex_E cex_q (right cex_r) cex_delta cex_st)) =
     \<lparr> dsqd_range_d = \<lparr> lo = 9 / 25, hi = 9 / 25 \<rparr>,
       d_density_range_d = \<lparr> lo = 16 / 25, hi = 16 / 25 \<rparr> \<rparr>"
  "MinToMidSq cex_E (bound (left cex_r)) (bound cex_q)
     \<le> MinToMidSq cex_E (bound (right cex_r)) (bound cex_q)"
  by (simp_all add: cex_defs ex_defs traversal_defs result_defs range_defs power2_eq_square)

theorem FKde_visit_order_witness:
  "\<not> fst (ExtrinsicPrunable cex_E cex_q cex_r cex_delta (FKde_mu cex_q QS_Init cex_delta) cex_st) \<and>
   \<not> is_leaf cex_r \<and> node_count cex_q < node_count cex_r \<and>
   \<not> fst (IntrinsicPrunable cex_E cex_q (left cex_r) cex_delta cex_st) \<and>
   \<not> fst (IntrinsicPrunable cex_E cex_q (right cex_r) cex_delta cex_st) \<and>
   MinToMidSq cex_E (bound (left cex_r)) (bound cex_q)
     \<le> MinToMidSq cex_E (bound (right cex_r)) (bound cex_q) \<and>
   FKde cex_E cex_q cex_r cex_delta QS_Init cex_st =
     (case FKde cex_E cex_q (left cex_r)
             \<lparr> dsqd_range_d = \<lparr> lo = 0, hi = 1 / 4 \<rparr>, d_density_range_d = \<lparr> lo = 3 / 2, hi = 2 \<rparr> \<rparr>
             (QS_ApplyDelta QS_Init
                \<lparr> dsqd_range_d = \<lparr> lo = 9 / 25, hi = 9 / 25 \<rparr>,
                  d_density_range_d = \<lparr> lo = 16 / 25, hi = 16 / 25 \<rparr> \<rparr>)
             cex_st of
        (qnode3, st3) \<Rightarrow>
          FKde cex_E qnode3 (right cex_r)
            \<lparr> dsqd_range_d = \<lparr> lo = 9 / 25, hi = 9 / 25 \<rparr>,
              d_density_range_d = \<lparr> lo = 16 / 25, hi = 16 / 25 \<rparr> \<rparr>
            QS_Init st3)"
  using FKde_visit_order [OF cex_hyps] cex_hyps cex_deltas
  by (simp add: Let_def cex_q_def cex_r_def)

section \<open>The cost model of the series expansions\<close>





lemma int32_range: "INT_MIN \<le> int32 x" "int32 x \<le> INT_MAX"
  by (simp_all add: int32_def INT_MIN_def INT_MAX_def)



































section \<open>Pre-processing of a query tree of its own\<close>

text \<open>C9.  \<open>PreProcess\<close> refines the farfield expansion of every leaf from \<open>rset_\<close> and
  \<open>rset_weights_\<close>, whichever tree the leaf belongs to.  On the instance above the query
  tree is not the reference tree; its right leaf owns query point 5 (index 1), and the
  expansion it receives holds reference point 1 (column 1 of the reference set).\<close>

theorem PreProcess_query_tree:
  "farfield_expansion (stat (right (PreProcess ex_E ex_qroot))) = [[1]] \<and>
   map (GetColumnPtr (qset ex_E)) [node_begin (right ex_qroot)..node_end (right ex_qroot) - 1] = [[5]] \<and>
   map (GetColumnPtr (rset ex_E)) [node_begin (right ex_qroot)..node_end (right ex_qroot) - 1] = [[1]] \<and>
   ex_qroot \<noteq> ex_rroot"
  by (simp add: ex_defs GetColumnPtr_def node_end_def upto.simps)

end
